theory Spec2Isabelle
  imports Main
begin

section \<open>The authentication controller (auth.controller.ts)\<close>

text \<open>
  The controller is the code under verification. It delegates to three collaborators whose
  code is elsewhere: the authentication service (\<^verbatim>\<open>authService.handleOAuthLogin\<close>),
  \<^verbatim>\<open>setCookie\<close> and the two redirect helpers. They are parameters of the model
  (record \<open>deps\<close>): every theorem about the controller holds for every service.
\<close>

subsection \<open>Data\<close>

text \<open>The members of the \<^verbatim>\<open>AuthProvider\<close> enumeration the controller names.\<close>

datatype AuthProvider = GITHUB | GITLAB | GOOGLE

text \<open>
  What a call can throw. \<^verbatim>\<open>UnprocessableEntityException\<close> is the one exception the
  callbacks construct themselves; the service may throw any of the three.
\<close>

datatype exn =
    UnprocessableEntityException string
  | HttpException string nat
  | Error string

text \<open>An element of \<^verbatim>\<open>emails\<close> or \<^verbatim>\<open>photos\<close>: an object with a \<^verbatim>\<open>value\<close>.\<close>

record entry =
  entry_value :: string

text \<open>
  \<^verbatim>\<open>req.user\<close>, the profile the provider's strategy leaves on the request. The GitHub and
  Google callbacks read \<^verbatim>\<open>emails\<close>, \<^verbatim>\<open>displayName\<close> and \<^verbatim>\<open>photos\<close>; the GitLab callback
  reads \<^verbatim>\<open>emails\<close>, \<^verbatim>\<open>displayName\<close> and \<^verbatim>\<open>avatarUrl\<close>. The callbacks take the length
  of \<^verbatim>\<open>emails\<close> and index \<^verbatim>\<open>photos\<close>, so both are arrays here. A picture URL that is
  \<^verbatim>\<open>undefined\<close> is \<open>None\<close>.
\<close>

record req_user =
  emails :: "entry list"
  displayName :: string
  photos :: "entry list"
  avatarUrl :: "string option"

text \<open>What the controller writes to the HTTP response.\<close>

datatype ('d, 'u) response_effect =
    CookieSet 'd
  | SuccessRedirect 'u
  | FailureRedirect string

text \<open>
  The world a request runs in: the state behind the authentication service, the calls the
  controller made to \<^verbatim>\<open>handleOAuthLogin\<close> (email, name, picture, provider), what it
  wrote to the response and what it wrote to its logger.
\<close>

record ('s, 'd, 'u) world =
  service :: 's
  calls :: "(string \<times> string \<times> string option \<times> AuthProvider) list"
  response :: "('d, 'u) response_effect list"
  logger :: "string list"

text \<open>
  The collaborators. \<open>handleOAuthLogin\<close> reads and updates the service's state and either
  throws or returns the login data; \<open>setCookie\<close> turns the data into the user it returns
  (or throws); \<open>sendOAuthSuccessRedirect\<close> may throw as well.
\<close>

record ('s, 'd, 'u) deps =
  handleOAuthLogin ::
    "string \<Rightarrow> string \<Rightarrow> string option \<Rightarrow> AuthProvider \<Rightarrow> 's \<Rightarrow> (exn + 'd) \<times> 's"
  setCookie :: "'d \<Rightarrow> exn + 'u"
  sendOAuthSuccessRedirect :: "'u \<Rightarrow> exn + unit"

subsection \<open>Operations\<close>

definition emailMissing :: string where
  "emailMissing = ''Email information is missing from the OAuth provider data.''"

definition differentProvider :: string where
  "differentProvider = ''User attempted to log in with a different OAuth provider''"

text \<open>\<^verbatim>\<open>await this.authService.handleOAuthLogin(email, name, profilePictureUrl, provider)\<close>:
  the call is recorded, the service's state is replaced by the one it leaves.\<close>

definition authService_handleOAuthLogin ::
  "('s, 'd, 'u) deps \<Rightarrow> string \<Rightarrow> string \<Rightarrow> string option \<Rightarrow> AuthProvider \<Rightarrow>
   ('s, 'd, 'u) world \<Rightarrow> (exn + 'd) \<times> ('s, 'd, 'u) world" where
  "authService_handleOAuthLogin D email name profilePictureUrl oauthProvider w =
     (case handleOAuthLogin D email name profilePictureUrl oauthProvider (service w) of
        (r, s') \<Rightarrow>
          (r, w\<lparr>service := s',
                calls := calls w @ [(email, name, profilePictureUrl, oauthProvider)]\<rparr>))"

text \<open>The \<^verbatim>\<open>catch\<close> block of \<^verbatim>\<open>handleOAuthProcess\<close>: it ignores the error it caught,
  warns with a fixed text and sends the failure redirect with the same text.\<close>

definition oauthFailure :: "('s, 'd, 'u) world \<Rightarrow> ('s, 'd, 'u) world" where
  "oauthFailure w =
     w\<lparr>logger := logger w @ [differentProvider],
       response := response w @ [FailureRedirect differentProvider]\<rparr>"

text \<open>\<^verbatim>\<open>handleOAuthProcess\<close>: the three statements of the \<^verbatim>\<open>try\<close> block in order, each of
  which may throw into the \<^verbatim>\<open>catch\<close> block. Nothing is thrown out of it.\<close>

definition handleOAuthProcess ::
  "('s, 'd, 'u) deps \<Rightarrow> string \<Rightarrow> string \<Rightarrow> string option \<Rightarrow> AuthProvider \<Rightarrow>
   ('s, 'd, 'u) world \<Rightarrow> ('s, 'd, 'u) world" where
  "handleOAuthProcess D email name profilePictureUrl oauthProvider w =
     (case authService_handleOAuthLogin D email name profilePictureUrl oauthProvider w of
        (Inl error, w1) \<Rightarrow> oauthFailure w1
      | (Inr data, w1) \<Rightarrow>
          (case setCookie D data of
             Inl error \<Rightarrow> oauthFailure w1
           | Inr user \<Rightarrow>
               (let w2 = w1\<lparr>response := response w1 @ [CookieSet data]\<rparr> in
                case sendOAuthSuccessRedirect D user of
                  Inl error \<Rightarrow> oauthFailure w2
                | Inr _ \<Rightarrow> w2\<lparr>response := response w2 @ [SuccessRedirect user]\<rparr>)))"

text \<open>\<^verbatim>\<open>photos[0]?.value\<close>: \<^verbatim>\<open>undefined\<close> when the array is empty, the first
  element's value otherwise.\<close>

definition photos0_value :: "entry list \<Rightarrow> string option" where
  "photos0_value ps = (case ps of [] \<Rightarrow> None | p # _ \<Rightarrow> Some (entry_value p))"

text \<open>\<^verbatim>\<open>githubOAuthCallback\<close>: the email check, then the service's own result (or
  exception) is what the callback returns (or throws).\<close>

definition githubOAuthCallback ::
  "('s, 'd, 'u) deps \<Rightarrow> req_user \<Rightarrow> ('s, 'd, 'u) world \<Rightarrow> (exn + 'd) \<times> ('s, 'd, 'u) world" where
  "githubOAuthCallback D user w =
     (case emails user of
        [] \<Rightarrow> (Inl (UnprocessableEntityException emailMissing), w)
      | e # _ \<Rightarrow>
          (let email = entry_value e;
               profilePictureUrl = photos0_value (photos user)
           in authService_handleOAuthLogin D email (displayName user) profilePictureUrl GITHUB w))"

text \<open>\<^verbatim>\<open>gitlabOAuthCallback\<close>: the email check, then \<^verbatim>\<open>handleOAuthProcess\<close>, whose
  outcome the callback does not return.\<close>

definition gitlabOAuthCallback ::
  "('s, 'd, 'u) deps \<Rightarrow> req_user \<Rightarrow> ('s, 'd, 'u) world \<Rightarrow> (exn + unit) \<times> ('s, 'd, 'u) world" where
  "gitlabOAuthCallback D user w =
     (case emails user of
        [] \<Rightarrow> (Inl (UnprocessableEntityException emailMissing), w)
      | e # _ \<Rightarrow>
          (let email = entry_value e
           in (Inr (), handleOAuthProcess D email (displayName user) (avatarUrl user) GITLAB w)))"

text \<open>\<^verbatim>\<open>googleOAuthCallback\<close>: as GitLab's, with the picture taken from \<^verbatim>\<open>photos[0]?.value\<close>.\<close>

definition googleOAuthCallback ::
  "('s, 'd, 'u) deps \<Rightarrow> req_user \<Rightarrow> ('s, 'd, 'u) world \<Rightarrow> (exn + unit) \<times> ('s, 'd, 'u) world" where
  "googleOAuthCallback D user w =
     (case emails user of
        [] \<Rightarrow> (Inl (UnprocessableEntityException emailMissing), w)
      | e # _ \<Rightarrow>
          (let email = entry_value e;
               profilePictureUrl = photos0_value (photos user)
           in (Inr (), handleOAuthProcess D email (displayName user) profilePictureUrl GOOGLE w)))"

section \<open>The one-time-passcode store\<close>

text \<open>
  The controller hands \<^verbatim>\<open>sendOtp\<close> and \<^verbatim>\<open>validateOtp\<close> to the authentication service,
  whose code is not part of the sources. The store below follows the specification's
  description of \<open>OtpStore\<close>.
\<close>

text \<open>Modelled from the spec: the pending challenge of the data model (\<open>PendingOtp\<close>); the
  service that keeps it is missing from the sources. Time is a count of ticks.\<close>

record PendingOtp =
  pendingEmail :: string
  code :: string
  expiresAt :: nat
  attemptsRemaining :: nat

text \<open>Modelled from the spec: what the specification leaves to policy and the missing service
  would fix: how an email is normalised into the store's key, how long a challenge lives and
  how many failed checks it allows.\<close>

record OtpPolicy =
  normalizeEmail :: "string \<Rightarrow> string"
  ttl :: nat
  maxAttempts :: nat

type_synonym OtpStore = "string \<rightharpoonup> PendingOtp"

text \<open>Modelled from the spec: the failures of \<open>Consume\<close>; the service that raises them is
  missing from the sources.\<close>

datatype OtpFailure = NotFound | Expired | Mismatch | AttemptsExhausted

text \<open>Modelled from the spec: \<open>OtpStore.Create\<close> of the missing service. The fresh secret comes
  from a generator outside the store and is an argument; the challenge overwrites any pending
  one for the email, expires \<open>ttl\<close> after \<open>now\<close> and starts with the full attempt counter.\<close>

definition Create ::
  "OtpPolicy \<Rightarrow> string \<Rightarrow> string \<Rightarrow> nat \<Rightarrow> OtpStore \<Rightarrow> string \<times> OtpStore" where
  "Create P email secret now st =
     (let k = normalizeEmail P email
      in (secret,
          st(k \<mapsto> \<lparr>pendingEmail = k, code = secret, expiresAt = now + ttl P,
                     attemptsRemaining = maxAttempts P\<rparr>)))"

text \<open>Modelled from the spec: \<open>OtpStore.Consume\<close> of the missing service, its cases in the
  specification's order: no challenge, past \<open>expiresAt\<close>, mismatch (decrement, then
  \<open>Mismatch\<close> or, at zero, \<open>AttemptsExhausted\<close>), match.\<close>

definition Consume ::
  "OtpPolicy \<Rightarrow> string \<Rightarrow> string \<Rightarrow> nat \<Rightarrow> OtpStore \<Rightarrow> (OtpFailure + unit) \<times> OtpStore" where
  "Consume P email candidateCode now st =
     (let k = normalizeEmail P email in
      case st k of
        None \<Rightarrow> (Inl NotFound, st)
      | Some p \<Rightarrow>
          if expiresAt p < now then (Inl Expired, st(k := None))
          else if candidateCode = code p then (Inr (), st(k := None))
          else (let n = attemptsRemaining p - 1 in
                if n = 0 then (Inl AttemptsExhausted, st(k := None))
                else (Inl Mismatch, st(k \<mapsto> p\<lparr>attemptsRemaining := n\<rparr>))))"

text \<open>Modelled from the spec: a run of confirmation attempts (email, candidate, time) against
  the missing service's store, with no \<open>Create\<close> in between; each attempt's outcome is
  kept.\<close>

fun consumeAll ::
  "OtpPolicy \<Rightarrow> (string \<times> string \<times> nat) list \<Rightarrow> OtpStore \<Rightarrow> (OtpFailure + unit) list" where
  "consumeAll P [] st = []"
| "consumeAll P ((email, candidateCode, now) # rest) st =
     (case Consume P email candidateCode now st of
        (r, st') \<Rightarrow> r # consumeAll P rest st')"


section \<open>The identity resolver\<close>

text \<open>Modelled from the spec: the identity record of the data model (\<open>UserIdentity\<close>); the
  service that keeps it is missing from the sources. The profile fields carry a prime to keep
  them apart from the fields of \<open>req_user\<close>.\<close>

record UserIdentity =
  userId :: nat
  email :: string
  displayName' :: string
  avatarUrl' :: "string option"
  linkedProviders :: "(AuthProvider \<times> string) set"

text \<open>Modelled from the spec: the identity store of the missing service, keyed by email, with
  the next unused user id.\<close>

record IdentityStore =
  identities :: "string \<rightharpoonup> UserIdentity"
  nextUserId :: nat

text \<open>Modelled from the spec: the two linking policies the specification leaves open for the
  missing service.\<close>

datatype LinkPolicy = ForbidSilentLinking | PermitLinking

text \<open>Modelled from the spec: the failure of \<open>ResolveOrLink\<close> of the missing service.\<close>

datatype ResolveFailure = ProviderConflict

text \<open>Modelled from the spec: \<open>IdentityResolver.ResolveOrLink\<close> of the missing service, its
  four cases: the pair is already linked (refresh the profile); the identity exists without
  the pair and the policy forbids linking (\<open>ProviderConflict\<close>, nothing changes); it exists
  and the policy permits (add the pair, refresh); no identity (create one seeded with the
  pair). The specification names no case for an identity that lacks the pair and was not
  established through a different provider; the policy decides it here as well.\<close>

definition ResolveOrLink ::
  "LinkPolicy \<Rightarrow> string \<Rightarrow> AuthProvider \<Rightarrow> string \<Rightarrow> string \<Rightarrow> string option \<Rightarrow>
   IdentityStore \<Rightarrow> (ResolveFailure + UserIdentity) \<times> IdentityStore" where
  "ResolveOrLink policy em provider providerSubjectId name avatar st =
     (case identities st em of
        Some u \<Rightarrow>
          if (provider, providerSubjectId) \<in> linkedProviders u then
            (let u' = u\<lparr>displayName' := name, avatarUrl' := avatar\<rparr>
             in (Inr u', st\<lparr>identities := (identities st)(em \<mapsto> u')\<rparr>))
          else if policy = ForbidSilentLinking then (Inl ProviderConflict, st)
          else
            (let u' = u\<lparr>displayName' := name, avatarUrl' := avatar,
                        linkedProviders := insert (provider, providerSubjectId) (linkedProviders u)\<rparr>
             in (Inr u', st\<lparr>identities := (identities st)(em \<mapsto> u')\<rparr>))
      | None \<Rightarrow>
          (let u' = \<lparr>userId = nextUserId st, email = em, displayName' = name,
                      avatarUrl' = avatar, linkedProviders = {(provider, providerSubjectId)}\<rparr>
           in (Inr u', st\<lparr>identities := (identities st)(em \<mapsto> u'),
                             nextUserId := Suc (nextUserId st)\<rparr>)))"

section \<open>Properties of the controller\<close>

subsection \<open>Auxiliary facts\<close>

lemma login_fst:
  "fst (authService_handleOAuthLogin D em name pic p w) =
   fst (handleOAuthLogin D em name pic p (service w))"
  by (simp add: authService_handleOAuthLogin_def split: prod.splits)

lemma login_calls:
  "calls (snd (authService_handleOAuthLogin D em name pic p w)) = calls w @ [(em, name, pic, p)]"
  by (simp add: authService_handleOAuthLogin_def split: prod.splits)

lemma login_response:
  "response (snd (authService_handleOAuthLogin D em name pic p w)) = response w"
  by (simp add: authService_handleOAuthLogin_def split: prod.splits)

lemma login_logger:
  "logger (snd (authService_handleOAuthLogin D em name pic p w)) = logger w"
  by (simp add: authService_handleOAuthLogin_def split: prod.splits)

lemma failure_response:
  "response (oauthFailure w) = response w @ [FailureRedirect differentProvider]"
  by (simp add: oauthFailure_def)

lemma failure_logger: "logger (oauthFailure w) = logger w @ [differentProvider]"
  by (simp add: oauthFailure_def)

text \<open>When the service throws, \<^verbatim>\<open>handleOAuthProcess\<close> is the \<^verbatim>\<open>catch\<close> block run after the
  call.\<close>

lemma process_on_error:
  assumes "fst (handleOAuthLogin D em name pic p (service w)) = Inl err"
  shows "handleOAuthProcess D em name pic p w =
         oauthFailure (snd (authService_handleOAuthLogin D em name pic p w))"
  using assms
  by (cases "handleOAuthLogin D em name pic p (service w)")
     (simp add: handleOAuthProcess_def authService_handleOAuthLogin_def)

text \<open>Whatever happens in \<^verbatim>\<open>handleOAuthProcess\<close>, the service was called exactly once.\<close>

lemma process_calls:
  "calls (handleOAuthProcess D em name pic p w) = calls w @ [(em, name, pic, p)]"
  by (cases "handleOAuthLogin D em name pic p (service w)")
     (simp add: handleOAuthProcess_def authService_handleOAuthLogin_def oauthFailure_def Let_def
        split: sum.splits)

subsection \<open>The missing-email check\<close>



subsection \<open>Who catches a resolution error\<close>

text \<open>
  Claim C8. With a non-empty list of emails, the GitLab and the Google callback never throw:
  an error the service raises while resolving the login is caught and turned into the
  failure redirect with the fixed text (which is also what is logged), whatever the error
  was. The GitHub callback catches nothing: the service's error is the callback's own
  exception, and the callback writes neither a redirect nor a log line.
\<close>

theorem resolution_errors_caught_except_github:
  assumes "emails user = e # es"
  shows "fst (gitlabOAuthCallback D user w) = Inr ()
       \<and> fst (googleOAuthCallback D user w) = Inr ()
       \<and> (fst (handleOAuthLogin D (entry_value e) (displayName user) (avatarUrl user) GITLAB
                 (service w)) = Inl err \<longrightarrow>
            response (snd (gitlabOAuthCallback D user w)) =
              response w @ [FailureRedirect differentProvider]
          \<and> logger (snd (gitlabOAuthCallback D user w)) = logger w @ [differentProvider])
       \<and> (fst (handleOAuthLogin D (entry_value e) (displayName user)
                 (photos0_value (photos user)) GOOGLE (service w)) = Inl err \<longrightarrow>
            response (snd (googleOAuthCallback D user w)) =
              response w @ [FailureRedirect differentProvider]
          \<and> logger (snd (googleOAuthCallback D user w)) = logger w @ [differentProvider])
       \<and> (fst (handleOAuthLogin D (entry_value e) (displayName user)
                 (photos0_value (photos user)) GITHUB (service w)) = Inl err \<longrightarrow>
            fst (githubOAuthCallback D user w) = Inl err
          \<and> response (snd (githubOAuthCallback D user w)) = response w
          \<and> logger (snd (githubOAuthCallback D user w)) = logger w)"
  using assms
  by (simp add: githubOAuthCallback_def gitlabOAuthCallback_def googleOAuthCallback_def
      login_fst login_response login_logger process_on_error failure_response failure_logger)

text \<open>
  Witness for C8: a service that rejects every login with a conflict. GitLab's and Google's
  callbacks return normally after the failure redirect; GitHub's throws the conflict.
\<close>

theorem resolution_errors_caught_except_github_witness:
  "(let D = \<lparr>handleOAuthLogin = (\<lambda>em name pic p s. (Inl (HttpException ''conflict'' 409), s)),
             setCookie = (Inr :: string \<Rightarrow> exn + string),
             sendOAuthSuccessRedirect = (\<lambda>u. Inr ())\<rparr>;
        w = \<lparr>service = (), calls = [], response = [], logger = []\<rparr>;
        u = \<lparr>emails = [\<lparr>entry_value = ''b@x.com''\<rparr>], displayName = ''Bob'', photos = [],
             avatarUrl = None\<rparr>
    in emails u = [\<lparr>entry_value = ''b@x.com''\<rparr>]
     \<and> fst (handleOAuthLogin D ''b@x.com'' ''Bob'' None GITLAB ()) =
         Inl (HttpException ''conflict'' 409)
     \<and> fst (gitlabOAuthCallback D u w) = Inr ()
     \<and> response (snd (gitlabOAuthCallback D u w)) = [FailureRedirect differentProvider]
     \<and> logger (snd (googleOAuthCallback D u w)) = [differentProvider]
     \<and> fst (githubOAuthCallback D u w) = Inl (HttpException ''conflict'' 409)
     \<and> response (snd (githubOAuthCallback D u w)) = [])"
  using resolution_errors_caught_except_github
    [of "\<lparr>emails = [\<lparr>entry_value = ''b@x.com''\<rparr>], displayName = ''Bob'', photos = [],
          avatarUrl = None\<rparr>"
        "\<lparr>entry_value = ''b@x.com''\<rparr>" "[]"
        "\<lparr>handleOAuthLogin = (\<lambda>em name pic p s. (Inl (HttpException ''conflict'' 409), s)),
          setCookie = (Inr :: string \<Rightarrow> exn + string),
          sendOAuthSuccessRedirect = (\<lambda>u. Inr ())\<rparr>"
        "\<lparr>service = (), calls = [], response = [], logger = []\<rparr>"
        "HttpException ''conflict'' 409"]
  by (simp add: photos0_value_def Let_def)

subsection \<open>A profile without photos\<close>

text \<open>
  Claim C10. In the GitHub and the Google callback a profile with at least one email and an
  empty list of photos is not rejected: the picture URL is absent (\<open>None\<close>) and the login
  goes on. GitHub's callback is the service call with that absent picture, and returns what
  the service returns; Google's callback returns normally after \<^verbatim>\<open>handleOAuthProcess\<close> ran
  with the absent picture. In both the service is called once, with no picture.
\<close>

theorem empty_photos_login_proceeds:
  assumes "emails user = e # es" and "photos user = []"
  shows "githubOAuthCallback D user w =
           authService_handleOAuthLogin D (entry_value e) (displayName user) None GITHUB w
       \<and> googleOAuthCallback D user w =
           (Inr (), handleOAuthProcess D (entry_value e) (displayName user) None GOOGLE w)
       \<and> fst (githubOAuthCallback D user w) =
           fst (handleOAuthLogin D (entry_value e) (displayName user) None GITHUB (service w))
       \<and> calls (snd (githubOAuthCallback D user w)) =
           calls w @ [(entry_value e, displayName user, None, GITHUB)]
       \<and> calls (snd (googleOAuthCallback D user w)) =
           calls w @ [(entry_value e, displayName user, None, GOOGLE)]"
  using assms
  by (simp add: githubOAuthCallback_def googleOAuthCallback_def photos0_value_def
      login_fst login_calls process_calls)

text \<open>
  Witness for C10: a service that accepts every login; the profile has one email and no
  photo. GitHub's callback returns the login data, Google's sets the cookie and sends the
  success redirect.
\<close>

theorem empty_photos_login_proceeds_witness:
  "(let D = \<lparr>handleOAuthLogin = (\<lambda>em name pic p s. (Inr em, Suc s)),
             setCookie = (Inr :: string \<Rightarrow> exn + string),
             sendOAuthSuccessRedirect = (\<lambda>u. Inr ())\<rparr>;
        w = \<lparr>service = (0::nat), calls = [], response = [], logger = []\<rparr>;
        u = \<lparr>emails = [\<lparr>entry_value = ''b@x.com''\<rparr>], displayName = ''Bob'', photos = [],
             avatarUrl = None\<rparr>
    in emails u = [\<lparr>entry_value = ''b@x.com''\<rparr>] \<and> photos u = []
     \<and> fst (githubOAuthCallback D u w) = Inr ''b@x.com''
     \<and> calls (snd (githubOAuthCallback D u w)) = [(''b@x.com'', ''Bob'', None, GITHUB)]
     \<and> fst (googleOAuthCallback D u w) = Inr ()
     \<and> calls (snd (googleOAuthCallback D u w)) = [(''b@x.com'', ''Bob'', None, GOOGLE)]
     \<and> response (snd (googleOAuthCallback D u w)) =
         [CookieSet ''b@x.com'', SuccessRedirect ''b@x.com''])"
  using empty_photos_login_proceeds
    [of "\<lparr>emails = [\<lparr>entry_value = ''b@x.com''\<rparr>], displayName = ''Bob'', photos = [],
          avatarUrl = None\<rparr>"
        "\<lparr>entry_value = ''b@x.com''\<rparr>" "[]"
        "\<lparr>handleOAuthLogin = (\<lambda>em name pic p s. (Inr em, Suc s)),
          setCookie = (Inr :: string \<Rightarrow> exn + string),
          sendOAuthSuccessRedirect = (\<lambda>u. Inr ())\<rparr>"
        "\<lparr>service = (0::nat), calls = [], response = [], logger = []\<rparr>"]
  by (simp add: handleOAuthProcess_def authService_handleOAuthLogin_def Let_def)

subsection \<open>What the caller is told when login resolution fails\<close>

text \<open>
  Claim C7, as stated, fails on \<^verbatim>\<open>handleOAuthProcess\<close>: the text sent with the failure
  redirect is not a generic authentication failure kept apart from the diagnostics. It is
  word for word the line written to the log, and it names the reason (a login through a
  different OAuth provider), while the error that was caught reaches neither the caller nor
  the log. Here the service rejects a Google login for an email registered through GitHub.
\<close>

theorem failure_text_is_the_logged_reason:
  "(let D = \<lparr>handleOAuthLogin =
               (\<lambda>em name pic p s. (Inl (HttpException ''registered through GITHUB'' 409), s)),
             setCookie = (Inr :: string \<Rightarrow> exn + string),
             sendOAuthSuccessRedirect = (\<lambda>u. Inr ())\<rparr>;
        w = \<lparr>service = (), calls = [], response = [], logger = []\<rparr>;
        w' = handleOAuthProcess D ''b@x.com'' ''Bob'' None GOOGLE w
    in response w' = [FailureRedirect ''User attempted to log in with a different OAuth provider'']
     \<and> logger w' = [''User attempted to log in with a different OAuth provider'']
     \<and> ''registered through GITHUB'' \<notin> set (logger w')
     \<and> \<not> (\<forall>m. m \<in> set (logger w') \<longrightarrow> FailureRedirect m \<notin> set (response w')))"
  by (simp add: handleOAuthProcess_def authService_handleOAuthLogin_def oauthFailure_def
      differentProvider_def Let_def)

text \<open>
  Claim C7, amended. In \<^verbatim>\<open>handleOAuthProcess\<close> (the GitLab and Google callbacks) every
  error of the login resolution ends in the same output: two runs of the same request
  against service states that reject it with different errors (the account registered
  through different providers) append the same failure redirect to the response and the same
  line to the log, both carrying the fixed text \<open>differentProvider\<close>. The error that was
  caught is neither sent nor logged.
\<close>

theorem failure_output_same_for_every_error:
  assumes "fst (handleOAuthLogin D em name pic p (service w1)) = Inl err1"
      and "fst (handleOAuthLogin D em name pic p (service w2)) = Inl err2"
      and "response w1 = response w2"
      and "logger w1 = logger w2"
  shows "response (handleOAuthProcess D em name pic p w1) =
           response (handleOAuthProcess D em name pic p w2)
       \<and> logger (handleOAuthProcess D em name pic p w1) =
           logger (handleOAuthProcess D em name pic p w2)
       \<and> response (handleOAuthProcess D em name pic p w1) =
           response w1 @ [FailureRedirect differentProvider]
       \<and> logger (handleOAuthProcess D em name pic p w1) = logger w1 @ [differentProvider]"
  using assms
  by (simp add: process_on_error failure_response failure_logger login_response login_logger)

text \<open>
  Witness for the amended C7: the service's state is the provider that owns the account and
  its error names that provider; a Google login is run against an account owned through
  GitLab and against one owned through GitHub.
\<close>

theorem failure_output_same_for_every_error_witness:
  "(let D = \<lparr>handleOAuthLogin =
               (\<lambda>em name pic p s.
                  (if p = s then Inr em
                   else Inl (HttpException (if s = GITLAB then ''GITLAB'' else ''GITHUB'') 409), s)),
             setCookie = (Inr :: string \<Rightarrow> exn + string),
             sendOAuthSuccessRedirect = (\<lambda>u. Inr ())\<rparr>;
        w1 = \<lparr>service = GITLAB, calls = [], response = [], logger = []\<rparr>;
        w2 = \<lparr>service = GITHUB, calls = [], response = [], logger = []\<rparr>
    in fst (handleOAuthLogin D ''b@x.com'' ''Bob'' None GOOGLE GITLAB) =
         Inl (HttpException ''GITLAB'' 409)
     \<and> fst (handleOAuthLogin D ''b@x.com'' ''Bob'' None GOOGLE GITHUB) =
         Inl (HttpException ''GITHUB'' 409)
     \<and> response (handleOAuthProcess D ''b@x.com'' ''Bob'' None GOOGLE w1) =
         response (handleOAuthProcess D ''b@x.com'' ''Bob'' None GOOGLE w2)
     \<and> response (handleOAuthProcess D ''b@x.com'' ''Bob'' None GOOGLE w1) =
         [FailureRedirect differentProvider]
     \<and> logger (handleOAuthProcess D ''b@x.com'' ''Bob'' None GOOGLE w2) = [differentProvider])"
  using failure_output_same_for_every_error
    [of "\<lparr>handleOAuthLogin =
               (\<lambda>em name pic p s.
                  (if p = s then Inr em
                   else Inl (HttpException (if s = GITLAB then ''GITLAB'' else ''GITHUB'') 409), s)),
          setCookie = (Inr :: string \<Rightarrow> exn + string),
          sendOAuthSuccessRedirect = (\<lambda>u. Inr ())\<rparr>"
        "''b@x.com''" "''Bob''" None GOOGLE
        "\<lparr>service = GITLAB, calls = [], response = [], logger = []\<rparr>"
        "HttpException ''GITLAB'' 409"
        "\<lparr>service = GITHUB, calls = [], response = [], logger = []\<rparr>"
        "HttpException ''GITHUB'' 409"]
  by (auto simp add: Let_def)

section \<open>Properties of the one-time-passcode store\<close>

subsection \<open>Auxiliary facts\<close>

text \<open>\<open>Consume\<close> never adds a challenge.\<close>

lemma consume_keeps_absent:
  "st k = None \<Longrightarrow> snd (Consume P em c now st) k = None"
  by (auto simp add: Consume_def Let_def split: option.splits)

lemma consume_absent:
  "st (normalizeEmail P em) = None \<Longrightarrow> Consume P em c now st = (Inl NotFound, st)"
  by (simp add: Consume_def)

text \<open>Once the email has no challenge, every later attempt for it finds none.\<close>

lemma consumeAll_absent:
  "st k = None \<Longrightarrow>
   \<forall>(a, r) \<in> set (zip attempts (consumeAll P attempts st)).
     normalizeEmail P (fst a) = k \<longrightarrow> r = Inl NotFound"
proof (induction attempts arbitrary: st)
  case Nil
  then show ?case by simp
next
  case (Cons a attempts)
  obtain em c now where a: "a = (em, c, now)" by (cases a) auto
  obtain r st' where step: "Consume P em c now st = (r, st')" by (cases "Consume P em c now st") auto
  have absent': "st' k = None"
    using consume_keeps_absent [of st k P em c now] Cons.prems step by simp
  have first: "normalizeEmail P em = k \<longrightarrow> r = Inl NotFound"
    using consume_absent [of st P em c now] Cons.prems step by auto
  show ?case
    using Cons.IH [of st'] absent' first a step by simp
qed


subsection \<open>The outcomes of a confirmation\<close>

text \<open>
  Claim C3. For every email and candidate code, \<open>Consume\<close> fails with \<open>NotFound\<close> when the
  email has no pending challenge; fails with \<open>Expired\<close> past \<open>expiresAt\<close> and discards the
  challenge; on a mismatch decrements the counter and fails with \<open>Mismatch\<close>, or with
  \<open>AttemptsExhausted\<close> when the counter reaches zero, discarding the challenge; on a match
  discards the challenge and succeeds. After \<open>AttemptsExhausted\<close> the email has no challenge,
  and whatever confirmations follow without a new \<open>Create\<close>, each one for that email fails
  with \<open>NotFound\<close>.
\<close>

theorem consume_outcomes:
  "(let k = normalizeEmail P em in
      (st k = None \<longrightarrow> Consume P em c now st = (Inl NotFound, st))
    \<and> (\<forall>p. st k = Some p \<and> expiresAt p < now \<longrightarrow>
            Consume P em c now st = (Inl Expired, st(k := None)))
    \<and> (\<forall>p. st k = Some p \<and> now \<le> expiresAt p \<and> c \<noteq> code p \<and> 1 < attemptsRemaining p \<longrightarrow>
            Consume P em c now st =
              (Inl Mismatch, st(k \<mapsto> p\<lparr>attemptsRemaining := attemptsRemaining p - 1\<rparr>)))
    \<and> (\<forall>p. st k = Some p \<and> now \<le> expiresAt p \<and> c \<noteq> code p \<and> attemptsRemaining p \<le> 1 \<longrightarrow>
            Consume P em c now st = (Inl AttemptsExhausted, st(k := None)))
    \<and> (\<forall>p. st k = Some p \<and> now \<le> expiresAt p \<and> c = code p \<longrightarrow>
            Consume P em c now st = (Inr (), st(k := None)))
    \<and> (fst (Consume P em c now st) = Inl AttemptsExhausted \<longrightarrow>
          snd (Consume P em c now st) k = None
        \<and> (\<forall>attempts.
             \<forall>(a, r) \<in> set (zip attempts (consumeAll P attempts (snd (Consume P em c now st)))).
               normalizeEmail P (fst a) = k \<longrightarrow> r = Inl NotFound)))"
proof -
  have exhausted: "snd (Consume P em c now st) (normalizeEmail P em) = None"
    if "fst (Consume P em c now st) = Inl AttemptsExhausted"
    using that by (auto simp add: Consume_def Let_def split: option.splits if_splits)
  have cases:
    "(st (normalizeEmail P em) = None \<longrightarrow> Consume P em c now st = (Inl NotFound, st))
    \<and> (\<forall>p. st (normalizeEmail P em) = Some p \<and> expiresAt p < now \<longrightarrow>
            Consume P em c now st = (Inl Expired, st(normalizeEmail P em := None)))
    \<and> (\<forall>p. st (normalizeEmail P em) = Some p \<and> now \<le> expiresAt p \<and> c \<noteq> code p \<and> 1 < attemptsRemaining p \<longrightarrow>
            Consume P em c now st =
              (Inl Mismatch, st(normalizeEmail P em \<mapsto> p\<lparr>attemptsRemaining := attemptsRemaining p - 1\<rparr>)))
    \<and> (\<forall>p. st (normalizeEmail P em) = Some p \<and> now \<le> expiresAt p \<and> c \<noteq> code p \<and> attemptsRemaining p \<le> 1 \<longrightarrow>
            Consume P em c now st = (Inl AttemptsExhausted, st(normalizeEmail P em := None)))
    \<and> (\<forall>p. st (normalizeEmail P em) = Some p \<and> now \<le> expiresAt p \<and> c = code p \<longrightarrow>
            Consume P em c now st = (Inr (), st(normalizeEmail P em := None)))"
    by (auto simp add: Consume_def Let_def)
  show ?thesis
    using cases exhausted consumeAll_absent [of "snd (Consume P em c now st)" "normalizeEmail P em" _ P]
    unfolding Let_def by blast
qed

text \<open>
  Witness for C3: a policy of three attempts and 300 ticks; one \<open>Consume\<close> for each case,
  and two further attempts with the right code after the counter ran out.
\<close>

theorem consume_outcomes_witness:
  "(let P = \<lparr>normalizeEmail = (\<lambda>e. e), ttl = 300, maxAttempts = 3\<rparr>;
        st = snd (Create P ''a@x.com'' ''123456'' 1000 Map.empty);
        last = st(''a@x.com'' \<mapsto> \<lparr>pendingEmail = ''a@x.com'', code = ''123456'',
                                  expiresAt = 1300, attemptsRemaining = 1\<rparr>)
    in fst (Consume P ''a@x.com'' ''123456'' 1100 Map.empty) = Inl NotFound
     \<and> fst (Consume P ''a@x.com'' ''123456'' 1301 st) = Inl Expired
     \<and> snd (Consume P ''a@x.com'' ''123456'' 1301 st) ''a@x.com'' = None
     \<and> fst (Consume P ''a@x.com'' ''000000'' 1100 st) = Inl Mismatch
     \<and> map_option attemptsRemaining (snd (Consume P ''a@x.com'' ''000000'' 1100 st) ''a@x.com'')
         = Some 2
     \<and> fst (Consume P ''a@x.com'' ''123456'' 1100 st) = Inr ()
     \<and> snd (Consume P ''a@x.com'' ''123456'' 1100 st) ''a@x.com'' = None
     \<and> fst (Consume P ''a@x.com'' ''000000'' 1100 last) = Inl AttemptsExhausted
     \<and> snd (Consume P ''a@x.com'' ''000000'' 1100 last) ''a@x.com'' = None
     \<and> consumeAll P [(''a@x.com'', ''123456'', 1100), (''a@x.com'', ''123456'', 1200)]
          (snd (Consume P ''a@x.com'' ''000000'' 1100 last)) = [Inl NotFound, Inl NotFound])"
  using consume_outcomes
    [of "\<lparr>normalizeEmail = (\<lambda>e. e), ttl = 300, maxAttempts = 3\<rparr>" "''a@x.com''"
        "Map.empty(''a@x.com'' \<mapsto> \<lparr>pendingEmail = ''a@x.com'', code = ''123456'',
                                      expiresAt = 1300, attemptsRemaining = 1\<rparr>)"
        "''000000''" 1100]
    consume_outcomes
    [of "\<lparr>normalizeEmail = (\<lambda>e. e), ttl = 300, maxAttempts = 3\<rparr>" "''a@x.com''"
        Map.empty "''123456''" 1100]
    consume_outcomes
    [of "\<lparr>normalizeEmail = (\<lambda>e. e), ttl = 300, maxAttempts = 3\<rparr>" "''a@x.com''"
        "Map.empty(''a@x.com'' \<mapsto> \<lparr>pendingEmail = ''a@x.com'', code = ''123456'',
                                      expiresAt = 1300, attemptsRemaining = 3\<rparr>)"
        "''123456''" 1301]
    consume_outcomes
    [of "\<lparr>normalizeEmail = (\<lambda>e. e), ttl = 300, maxAttempts = 3\<rparr>" "''a@x.com''"
        "Map.empty(''a@x.com'' \<mapsto> \<lparr>pendingEmail = ''a@x.com'', code = ''123456'',
                                      expiresAt = 1300, attemptsRemaining = 3\<rparr>)"
        "''000000''" 1100]
    consume_outcomes
    [of "\<lparr>normalizeEmail = (\<lambda>e. e), ttl = 300, maxAttempts = 3\<rparr>" "''a@x.com''"
        "Map.empty(''a@x.com'' \<mapsto> \<lparr>pendingEmail = ''a@x.com'', code = ''123456'',
                                      expiresAt = 1300, attemptsRemaining = 3\<rparr>)"
        "''123456''" 1100]
  by (simp add: Create_def Consume_def Let_def)

subsection \<open>A second request replaces the first\<close>




section \<open>Properties of the identity resolver\<close>

text \<open>
  Claim C1. For every email whose identity was established through provider \<open>A\<close>, under the
  policy that forbids silent linking, \<open>ResolveOrLink\<close> with a different provider \<open>B\<close> fails
  with \<open>ProviderConflict\<close> and leaves the store as it was (no second identity); a login
  through \<open>A\<close> again returns the identity with the same \<open>userId\<close> and the display name
  refreshed, adds no email to the store and allocates no user id.
\<close>

theorem second_provider_conflicts:
  assumes "identities st em = Some u"
      and "linkedProviders u = {(A, subA)}"
      and "B \<noteq> A"
  shows "ResolveOrLink ForbidSilentLinking em B subB name1 avatar1 st = (Inl ProviderConflict, st)
       \<and> ResolveOrLink ForbidSilentLinking em A subA name2 avatar2 st =
           (Inr (u\<lparr>displayName' := name2, avatarUrl' := avatar2\<rparr>),
            st\<lparr>identities := (identities st)(em \<mapsto> u\<lparr>displayName' := name2, avatarUrl' := avatar2\<rparr>)\<rparr>)
       \<and> userId (u\<lparr>displayName' := name2, avatarUrl' := avatar2\<rparr>) = userId u
       \<and> displayName' (u\<lparr>displayName' := name2, avatarUrl' := avatar2\<rparr>) = name2
       \<and> dom (identities (snd (ResolveOrLink ForbidSilentLinking em A subA name2 avatar2 st))) =
           dom (identities st)
       \<and> nextUserId (snd (ResolveOrLink ForbidSilentLinking em A subA name2 avatar2 st)) =
           nextUserId st"
  using assms
  by (auto simp add: ResolveOrLink_def Let_def)

text \<open>
  Witness for C1: Bob's first login through GitHub creates user 1; Google is refused and
  nothing changes; GitHub again returns user 1 under the new display name.
\<close>

theorem second_provider_conflicts_witness:
  "(let st0 = \<lparr>identities = Map.empty, nextUserId = 1\<rparr>;
        st = snd (ResolveOrLink ForbidSilentLinking ''b@x.com'' GITHUB ''gh123'' ''Bob'' None st0);
        bob = \<lparr>userId = 1, email = ''b@x.com'', displayName' = ''Bob'', avatarUrl' = None,
               linkedProviders = {(GITHUB, ''gh123'')}\<rparr>
    in identities st ''b@x.com'' = Some bob
     \<and> GOOGLE \<noteq> GITHUB
     \<and> fst (ResolveOrLink ForbidSilentLinking ''b@x.com'' GOOGLE ''go456'' ''Bob'' None st)
         = Inl ProviderConflict
     \<and> identities (snd (ResolveOrLink ForbidSilentLinking ''b@x.com'' GOOGLE ''go456'' ''Bob'' None st))
         ''b@x.com'' = Some bob
     \<and> fst (ResolveOrLink ForbidSilentLinking ''b@x.com'' GITHUB ''gh123'' ''Robert'' None st)
         = Inr (bob\<lparr>displayName' := ''Robert''\<rparr>))"
  using second_provider_conflicts
    [of "snd (ResolveOrLink ForbidSilentLinking ''b@x.com'' GITHUB ''gh123'' ''Bob'' None
               \<lparr>identities = Map.empty, nextUserId = 1\<rparr>)"
        "''b@x.com''"
        "\<lparr>userId = 1, email = ''b@x.com'', displayName' = ''Bob'', avatarUrl' = None,
          linkedProviders = {(GITHUB, ''gh123'')}\<rparr>"
        GITHUB "''gh123''" GOOGLE "''go456''" "''Bob''" None "''Robert''" None]
  by (simp add: ResolveOrLink_def Let_def)

end
